theory Spec2Isabelle
  imports Main "HOL-Library.AList" "HOL-Library.Sublist"
begin

section \<open>Text\<close>

text \<open>
  Python text is modelled as \<^typ>\<open>string\<close>, one \<^typ>\<open>char\<close> per code point, for the code
  points below 256. The operations of \<open>str\<close> the script uses are written out below:
  \<open>in\<close>, \<open>startswith\<close>, \<open>count\<close>, \<open>strip\<close>, \<open>lower\<close>, \<open>replace\<close> and \<open>join\<close>.
\<close>

fun startswith :: "string \<Rightarrow> string \<Rightarrow> bool" where
  "startswith s [] = True"
| "startswith [] (p # ps) = False"
| "startswith (c # cs) (p # ps) = (c = p \<and> startswith cs ps)"

text \<open>\<open>p in s\<close> on two strings: \<open>p\<close> occurs in \<open>s\<close> as a contiguous block.\<close>

fun str_in :: "string \<Rightarrow> string \<Rightarrow> bool" where
  "str_in p [] = (p = [])"
| "str_in p (c # cs) = (startswith (c # cs) p \<or> str_in p cs)"

definition str_count :: "string \<Rightarrow> char \<Rightarrow> nat" where
  "str_count s c = length (filter (\<lambda>x. x = c) s)"

text \<open>
  \<open>str.isspace\<close> on the code points below 256: the controls 9 to 13 and 28 to 31, the space,
  NEL (133) and the no-break space (160).
\<close>

definition py_isspace :: "char \<Rightarrow> bool" where
  "py_isspace c = (let n = (of_char c :: nat) in
     (9 \<le> n \<and> n \<le> 13) \<or> (28 \<le> n \<and> n \<le> 32) \<or> n = 133 \<or> n = 160)"

definition strip :: "string \<Rightarrow> string" where
  "strip s = rev (dropWhile py_isspace (rev (dropWhile py_isspace s)))"

text \<open>
  \<open>str.lower\<close> on the code points below 256: the letters A to Z and the accented capitals
  192 to 222 (the multiplication sign 215 apart) move up by 32.
\<close>

definition lower_chr :: "char \<Rightarrow> char" where
  "lower_chr c = (let n = (of_char c :: nat) in
     if (65 \<le> n \<and> n \<le> 90) \<or> (192 \<le> n \<and> n \<le> 222 \<and> n \<noteq> 215)
     then char_of (n + 32) else c)"

definition lower :: "string \<Rightarrow> string" where
  "lower s = map lower_chr s"

text \<open>
  \<open>s.replace(old, new)\<close>: the occurrences of \<open>old\<close> are replaced from left to right, without
  overlap; an empty \<open>old\<close> puts \<open>new\<close> before every character and at the end.
\<close>

function str_replace :: "string \<Rightarrow> string \<Rightarrow> string \<Rightarrow> string" where
  "str_replace old new s =
     (if old = [] then new @ concat (map (\<lambda>c. c # new) s)
      else if s = [] then []
      else if startswith s old then new @ str_replace old new (drop (length old) s)
      else hd s # str_replace old new (tl s))"
  by pat_completeness auto
termination
  by (relation "measure (\<lambda>(old, new, s). length s)") auto

declare str_replace.simps [simp del]

definition join :: "string \<Rightarrow> string list \<Rightarrow> string" where
  "join sep xs = (case xs of [] \<Rightarrow> [] | y # ys \<Rightarrow> y @ concat (map (\<lambda>z. sep @ z) ys))"

section \<open>Persistence names\<close>

text \<open>
  \<open>main\<close>, line 237: \<open>safe_filename = title.replace(' ', '_').replace('/', '_') + ".json"\<close>;
  line 244: the cached page is \<open>title.replace(' ', '_') + ".html"\<close>.
\<close>

definition safe_filename :: "string \<Rightarrow> string" where
  "safe_filename title = str_replace ''/'' ''_'' (str_replace '' '' ''_'' title) @ ''.json''"

definition html_filename :: "string \<Rightarrow> string" where
  "html_filename title = str_replace '' '' ''_'' title @ ''.html''"

section \<open>Errors\<close>

text \<open>The Python exceptions that the modelled code can raise.\<close>

datatype error = TypeError | KeyError | IndexError | AttributeError | ValueError | OSError

section \<open>Rendered markup\<close>

text \<open>
  The tree that \<open>BeautifulSoup(content, 'html.parser')\<close> hands to the script. A node is a
  string or a tag. A string has the class the parser gave it: plain text is a
  \<open>NavigableString\<close>, and comments, declarations and the text inside \<open>script\<close>, \<open>style\<close>,
  \<open>template\<close>, \<open>rt\<close> and \<open>rp\<close> have classes of their own. A tag has its name, its \<open>class\<close>
  attribute as the parser stores it (a list of tokens, absent when the tag has none), its
  other attributes and its children. The soup itself is the root tag.
\<close>

datatype string_class =
    NavigableString | CData | Comment | Declaration | Doctype | ProcessingInstruction
  | Stylesheet | Script | TemplateString | RubyTextString | RubyParenthesisString

datatype node =
    Txt string_class string
  | Elem string "string list option" "(string \<times> string) list" "node list"

fun tag_name :: "node \<Rightarrow> string option" where
  "tag_name (Txt sc s) = None"
| "tag_name (Elem t c a ks) = Some t"

fun class_of :: "node \<Rightarrow> string list option" where
  "class_of (Txt sc s) = None"
| "class_of (Elem t c a ks) = c"

text \<open>\<open>tag.get(k)\<close>: the attribute's value, \<open>None\<close> when the tag does not carry it.\<close>

fun attr :: "node \<Rightarrow> string \<Rightarrow> string option" where
  "attr (Txt sc s) k = None"
| "attr (Elem t c a ks) k = map_of a k"

text \<open>\<open>tag.get(k, "")\<close>.\<close>

definition attr_or_empty :: "node \<Rightarrow> string \<Rightarrow> string" where
  "attr_or_empty n k = (case attr n k of None \<Rightarrow> [] | Some v \<Rightarrow> v)"

fun children :: "node \<Rightarrow> node list" where
  "children (Txt sc s) = []"
| "children (Elem t c a ks) = ks"

text \<open>The nodes below a tag, in document order.\<close>

fun descendants :: "node \<Rightarrow> node list" where
  "descendants (Txt sc s) = []"
| "descendants (Elem t c a ks) = concat (map (\<lambda>k. k # descendants k) ks)"

text \<open>
  \<open>find_all(name, ...)\<close> with a test on the tag, \<open>find(name, ...)\<close> (the first match or
  \<open>None\<close>) and \<open>find_all(name, recursive=False)\<close>.
\<close>

definition find_all :: "string \<Rightarrow> (node \<Rightarrow> bool) \<Rightarrow> node \<Rightarrow> node list" where
  "find_all name p root = filter (\<lambda>n. tag_name n = Some name \<and> p n) (descendants root)"

definition find_first :: "string \<Rightarrow> (node \<Rightarrow> bool) \<Rightarrow> node \<Rightarrow> node option" where
  "find_first name p root = (case find_all name p root of [] \<Rightarrow> None | n # ns \<Rightarrow> Some n)"

definition find_children :: "string \<Rightarrow> node \<Rightarrow> node list" where
  "find_children name root = filter (\<lambda>n. tag_name n = Some name) (children root)"

definition any_tag :: "node \<Rightarrow> bool" where
  "any_tag n = True"

text \<open>
  A \<open>class_\<close> filter. The parser's matcher tries a callable on every token of the class list
  and then on the tokens joined by a space; a tag without a class is tried with \<open>None\<close>. A
  string filter matches a token equal to it or the joined tokens equal to it.
\<close>

definition class_matches :: "(string option \<Rightarrow> bool) \<Rightarrow> node \<Rightarrow> bool" where
  "class_matches f n =
     (case class_of n of
        None \<Rightarrow> f None
      | Some toks \<Rightarrow> list_ex (\<lambda>t. f (Some t)) toks \<or> f (Some (join '' '' toks)))"

definition class_is :: "string \<Rightarrow> node \<Rightarrow> bool" where
  "class_is s n =
     (case class_of n of
        None \<Rightarrow> False
      | Some toks \<Rightarrow> list_ex (\<lambda>t. t = s) toks \<or> join '' '' toks = s)"

text \<open>The truth value of \<open>x and m in x\<close>: \<open>None\<close> and the empty string are false.\<close>

definition truthy_with :: "string \<Rightarrow> string option \<Rightarrow> bool" where
  "truthy_with m x = (case x of None \<Rightarrow> False | Some s \<Rightarrow> s \<noteq> [] \<and> str_in m s)"

text \<open>
  \<open>get_text()\<close> concatenates the strings below a tag whose class is one of the tag's
  \<open>interesting_string_types\<close>: for an ordinary tag exactly \<open>NavigableString\<close> and \<open>CData\<close>,
  so that comments and the text of scripts, styles and templates are left out; for one of the
  five container tags the class of its own text. \<open>get_text(strip=True)\<close> strips each string
  first and leaves out those that become empty.
\<close>

definition interesting_string_types :: "node \<Rightarrow> string_class list" where
  "interesting_string_types n =
     (if tag_name n = Some ''rt'' then [RubyTextString]
      else if tag_name n = Some ''rp'' then [RubyParenthesisString]
      else if tag_name n = Some ''style'' then [Stylesheet]
      else if tag_name n = Some ''script'' then [Script]
      else if tag_name n = Some ''template'' then [TemplateString]
      else [NavigableString, CData])"

fun all_strings :: "string_class list \<Rightarrow> node \<Rightarrow> string list" where
  "all_strings types (Txt sc s) = (if sc \<in> set types then [s] else [])"
| "all_strings types (Elem t c a ks) = concat (map (all_strings types) ks)"

definition get_text :: "node \<Rightarrow> string" where
  "get_text n = concat (all_strings (interesting_string_types n) n)"

definition get_text_strip :: "node \<Rightarrow> string" where
  "get_text_strip n =
     concat (filter (\<lambda>s. s \<noteq> []) (map strip (all_strings (interesting_string_types n) n)))"

section \<open>List discovery\<close>

text \<open>
  A candidate is the dictionary \<open>extract_list_item\<close> builds: \<open>title\<close> and \<open>link\<close> always,
  \<open>image_link\<close> and \<open>exshowroom_price\<close> only when found.
\<close>

record candidate =
  title :: string
  link :: string
  image_link :: "string option"
  exshowroom_price :: "string option"

text \<open>\<open>href if href.startswith("http") else f"https://www.carandbike.com{href}"\<close>\<close>

definition site_link :: "string \<Rightarrow> string" where
  "site_link href = (if startswith href ''http'' then href else ''https://www.carandbike.com'' @ href)"

text \<open>
  \<open>extract_list_item\<close>, lines 87 to 112. The regular expression search for the price
  (\<open>re.search\<close> with the rupee sign, returning group 1 of the match) belongs to the library and
  is the parameter \<open>price_search\<close>.
\<close>

definition extract_list_item :: "(string \<Rightarrow> string option) \<Rightarrow> node \<Rightarrow> candidate option" where
  "extract_list_item price_search li_item =
     (let title_tag =
            (case find_first ''a'' (class_matches (truthy_with ''js-tracker'')) li_item of
               Some a \<Rightarrow> Some a
             | None \<Rightarrow> find_first ''a'' any_tag li_item)
      in case title_tag of
           None \<Rightarrow> None
         | Some a \<Rightarrow>
             Some \<lparr> title = get_text_strip a,
                    link = site_link (attr_or_empty a ''href''),
                    image_link =
                      (case find_first ''img'' any_tag li_item of
                         None \<Rightarrow> None
                       | Some img \<Rightarrow> Some (attr_or_empty img ''src'')),
                    exshowroom_price = price_search (get_text li_item) \<rparr>)"

text \<open>
  Strategy A, lines 55 to 62: every \<open>li\<close> child of every grid \<open>ul\<close>. A dictionary returned by
  \<open>extract_list_item\<close> holds at least \<open>title\<close> and \<open>link\<close>, so \<open>if bike:\<close> only rejects
  \<open>None\<close>.
\<close>

fun li_loop :: "(string \<Rightarrow> string option) \<Rightarrow> node list \<Rightarrow> candidate list \<Rightarrow> candidate list" where
  "li_loop ps [] bikes = bikes"
| "li_loop ps (li # li_items) bikes =
     li_loop ps li_items
       (case extract_list_item ps li of None \<Rightarrow> bikes | Some bike \<Rightarrow> bikes @ [bike])"

fun ul_loop :: "(string \<Rightarrow> string option) \<Rightarrow> node list \<Rightarrow> candidate list \<Rightarrow> candidate list" where
  "ul_loop ps [] bikes = bikes"
| "ul_loop ps (ul # ul_tags) bikes =
     ul_loop ps ul_tags (li_loop ps (find_children ''li'' ul) bikes)"

definition is_grid :: "string option \<Rightarrow> bool" where
  "is_grid x = (case x of None \<Rightarrow> False
                | Some s \<Rightarrow> s \<noteq> [] \<and> str_in ''grid'' s \<and> str_in ''gap-4'' s)"

definition strategy_a :: "(string \<Rightarrow> string option) \<Rightarrow> node \<Rightarrow> candidate list" where
  "strategy_a ps soup = ul_loop ps (find_all ''ul'' (class_matches is_grid) soup) []"

text \<open>
  Strategy B, lines 68 to 82. \<open>link.get('href')\<close> is \<open>None\<close> on a tag without the attribute,
  and \<open>None.count\<close> raises.
\<close>

definition link_candidate :: "string \<Rightarrow> string \<Rightarrow> candidate" where
  "link_candidate t href =
     \<lparr> title = t, link = site_link href, image_link = None, exshowroom_price = None \<rparr>"

fun link_loop :: "node list \<Rightarrow> candidate list \<Rightarrow> string set \<Rightarrow> error + candidate list" where
  "link_loop [] bikes seen_links = Inr bikes"
| "link_loop (a # links) bikes seen_links =
     (case attr a ''href'' of
        None \<Rightarrow> Inl AttributeError
      | Some href \<Rightarrow>
          if href \<in> seen_links then link_loop links bikes seen_links
          else if 2 < str_count href CHR ''/'' then
            (let t = get_text_strip a in
             if t \<noteq> [] then
               link_loop links (bikes @ [link_candidate t href]) (insert href seen_links)
             else link_loop links bikes seen_links)
          else link_loop links bikes seen_links)"

definition bike_links :: "node \<Rightarrow> node list" where
  "bike_links soup = find_all ''a'' (\<lambda>n. truthy_with ''/bikes/'' (attr n ''href'')) soup"

text \<open>
  \<open>fetch_bike_links_playwright\<close> from the parsed page content on (lines 47 to 85): strategy B
  runs only when strategy A left \<open>bikes\<close> empty.
\<close>

definition fetch_bike_links_playwright ::
  "(string \<Rightarrow> string option) \<Rightarrow> node \<Rightarrow> error + candidate list" where
  "fetch_bike_links_playwright ps soup =
     (let bikes = strategy_a ps soup
      in if bikes = [] then link_loop (bike_links soup) bikes {} else Inr bikes)"


section \<open>Parsed JSON\<close>

text \<open>
  The values \<open>json.loads\<close> returns and \<open>json.dump\<close> writes: \<open>None\<close>, booleans, numbers
  (carried, never computed on; \<open>JFloat m e\<close> is the decimal literal \<open>m\<close> times ten to the
  \<open>e\<close>), strings, lists, and dictionaries with string keys. A dictionary is an association
  list in insertion order; \<^const>\<open>AList.update\<close> is \<open>d[k] = v\<close>: it overwrites in place or
  appends.
\<close>

datatype json =
    JNull
  | JBool bool
  | JInt int
  | JFloat int int
  | JStr string
  | JArr "json list"
  | JObj "(string \<times> json) list"

type_synonym dict = "(string \<times> json) list"

definition and_then :: "error + 'a \<Rightarrow> ('a \<Rightarrow> error + 'b) \<Rightarrow> error + 'b" where
  "and_then m f = (case m of Inl e \<Rightarrow> Inl e | Inr x \<Rightarrow> f x)"

text \<open>\<open>k in x\<close> for a string \<open>k\<close>: a key of a dictionary, an element of a list, a substring.\<close>

fun py_in :: "string \<Rightarrow> json \<Rightarrow> error + bool" where
  "py_in k (JObj d) = Inr (map_of d k \<noteq> None)"
| "py_in k (JArr xs) = Inr (JStr k \<in> set xs)"
| "py_in k (JStr s) = Inr (str_in k s)"
| "py_in k x = Inl TypeError"

text \<open>\<open>x[k]\<close> for a string \<open>k\<close>.\<close>

fun py_item :: "json \<Rightarrow> string \<Rightarrow> error + json" where
  "py_item (JObj d) k = (case map_of d k of None \<Rightarrow> Inl KeyError | Some v \<Rightarrow> Inr v)"
| "py_item x k = Inl TypeError"

text \<open>\<open>x[0]\<close>; a dictionary of parsed JSON has no integer key.\<close>

fun py_first :: "json \<Rightarrow> error + json" where
  "py_first (JArr []) = Inl IndexError"
| "py_first (JArr (x # xs)) = Inr x"
| "py_first (JStr []) = Inl IndexError"
| "py_first (JStr (c # cs)) = Inr (JStr [c])"
| "py_first (JObj d) = Inl KeyError"
| "py_first x = Inl TypeError"

text \<open>
  \<open>x.get(k)\<close>: the value under the key, \<open>None\<close> when the dictionary has no such key; only
  a dictionary has the method.
\<close>

definition dict_get :: "dict \<Rightarrow> string \<Rightarrow> json" where
  "dict_get d k = (case map_of d k of None \<Rightarrow> JNull | Some v \<Rightarrow> v)"

fun py_get :: "json \<Rightarrow> string \<Rightarrow> error + json" where
  "py_get (JObj d) k = Inr (dict_get d k)"
| "py_get x k = Inl AttributeError"

section \<open>Detail extraction\<close>

text \<open>
  \<open>extract_detailed_bike_info\<close>, lines 114 to 191. First the body of the \<open>try\<close> block, piece
  by piece.
\<close>

definition unwrap_graph :: "json \<Rightarrow> error + json" where
  "unwrap_graph data =
     and_then (py_in ''@graph'' data) (\<lambda>wrapped.
       if wrapped then and_then (py_item data ''@graph'') py_first else Inr data)"

definition basic_info_of :: "json \<Rightarrow> error + json" where
  "basic_info_of data =
     and_then (py_get data ''name'') (\<lambda>name.
     and_then (py_get data ''manufacturer'') (\<lambda>manufacturer.
     and_then (py_get data ''model'') (\<lambda>model.
     and_then (py_get data ''bodyType'') (\<lambda>body_type.
     and_then (py_get data ''description'') (\<lambda>description.
     and_then (py_get data ''sku'') (\<lambda>sku.
       Inr (JObj [(''name'', name), (''manufacturer'', manufacturer), (''model'', model),
                  (''body_type'', body_type), (''description'', description),
                  (''sku'', sku)])))))))"

definition engine_of :: "json \<Rightarrow> error + json option" where
  "engine_of data =
     and_then (py_in ''vehicleEngine'' data) (\<lambda>present.
       if present then
         and_then (py_item data ''vehicleEngine'') (\<lambda>engine_data0.
         and_then (case engine_data0 of
                     JArr xs \<Rightarrow> (if xs \<noteq> [] then py_first (JArr xs) else Inr (JObj []))
                   | x \<Rightarrow> Inr x) (\<lambda>engine_data.
         and_then (py_get engine_data ''engineDisplacement'') (\<lambda>displacement.
         and_then (py_get engine_data ''enginePower'') (\<lambda>power.
         and_then (py_get engine_data ''torque'') (\<lambda>torque.
         and_then (py_get engine_data ''fuelType'') (\<lambda>fuel_type.
           Inr (Some (JObj [(''displacement'', displacement), (''power'', power),
                            (''torque'', torque), (''fuel_type'', fuel_type)]))))))))
       else Inr None)"

definition price_of :: "json \<Rightarrow> error + json option" where
  "price_of data =
     and_then (py_in ''offers'' data) (\<lambda>present.
       if present then
         and_then (py_item data ''offers'') (\<lambda>offer.
         and_then (py_get offer ''price'') (\<lambda>price.
         and_then (py_get offer ''priceCurrency'') (\<lambda>currency.
         and_then (py_get offer ''availability'') (\<lambda>availability.
           Inr (Some (JObj [(''value'', price), (''currency'', currency),
                            (''availability'', availability)]))))))
       else Inr None)"

definition brand_of :: "json \<Rightarrow> error + json option" where
  "brand_of data =
     and_then (py_in ''brand'' data) (\<lambda>present.
       if present then
         and_then (py_item data ''brand'') (\<lambda>brand.
         and_then (py_get brand ''name'') (\<lambda>name.
           Inr (Some (JObj [(''name'', name)]))))
       else Inr None)"

definition set_opt :: "string \<Rightarrow> json option \<Rightarrow> dict \<Rightarrow> dict" where
  "set_opt k v d = (case v of None \<Rightarrow> d | Some x \<Rightarrow> AList.update k x d)"

text \<open>
  Lines 123 to 163 after \<open>json.loads\<close>. An exception leaves the \<open>try\<close> block with
  \<open>bike_details\<close> as the assignments before it made it: the result is that dictionary and the
  exception, if any.
\<close>

definition json_ld_fields :: "json \<Rightarrow> dict \<Rightarrow> dict \<times> error option" where
  "json_ld_fields parsed bike_details =
     (case unwrap_graph parsed of Inl e \<Rightarrow> (bike_details, Some e) | Inr data \<Rightarrow>
      case basic_info_of data of Inl e \<Rightarrow> (bike_details, Some e) | Inr basic_info \<Rightarrow>
      let d1 = AList.update ''basic_info'' basic_info bike_details in
      case engine_of data of Inl e \<Rightarrow> (d1, Some e) | Inr engine \<Rightarrow>
      let d2 = set_opt ''engine'' engine d1 in
      case price_of data of Inl e \<Rightarrow> (d2, Some e) | Inr price \<Rightarrow>
      let d3 = set_opt ''price'' price d2 in
      case brand_of data of Inl e \<Rightarrow> (d3, Some e) | Inr brand \<Rightarrow>
      (set_opt ''brand'' brand d3, None))"

text \<open>
  Line 119 and \<open>json_ld_script.string\<close>: the string of a tag is its only child when that is
  text, the string of its only child when that is a tag, and \<open>None\<close> otherwise.
\<close>

definition json_ld_script :: "node \<Rightarrow> node option" where
  "json_ld_script soup =
     find_first ''script''
       (\<lambda>n. attr n ''id'' = Some ''product-schema-script''
            \<and> attr n ''type'' = Some ''application/ld+json'') soup"

fun node_string :: "node \<Rightarrow> string option" where
  "node_string (Txt sc s) = Some s"
| "node_string (Elem t c a [k]) = node_string k"
| "node_string (Elem t c a ks) = None"

text \<open>
  \<open>json.loads\<close> is the parameter \<open>loads\<close>: \<open>None\<close> when it raises on a text. Called on
  \<open>None\<close> it raises a \<open>TypeError\<close>. The outcome of lines 119 to 123 is \<open>None\<close> when the page
  has no such script tag, and otherwise the parsed value or the exception.
\<close>

definition load_json_ld :: "(string \<Rightarrow> json option) \<Rightarrow> node \<Rightarrow> (error + json) option" where
  "load_json_ld loads soup =
     (case json_ld_script soup of
        None \<Rightarrow> None
      | Some script \<Rightarrow>
          Some (case node_string script of
                  None \<Rightarrow> Inl TypeError
                | Some text \<Rightarrow> (case loads text of None \<Rightarrow> Inl ValueError | Some v \<Rightarrow> Inr v)))"

definition structured_part :: "(string \<Rightarrow> json option) \<Rightarrow> node \<Rightarrow> dict" where
  "structured_part loads soup =
     (case load_json_ld loads soup of
        None \<Rightarrow> []
      | Some (Inl e) \<Rightarrow> []
      | Some (Inr parsed) \<Rightarrow> fst (json_ld_fields parsed []))"

text \<open>Lines 170 to 179: the rows of the content cards, \<open>specs[key] = val\<close>.\<close>

fun row_loop :: "node list \<Rightarrow> (string \<times> string) list \<Rightarrow> (string \<times> string) list" where
  "row_loop [] specs = specs"
| "row_loop (row # rows) specs =
     row_loop rows
       (case find_all ''div'' any_tag row of
          [k, v] \<Rightarrow> AList.update (get_text_strip k) (get_text_strip v) specs
        | cols \<Rightarrow> specs)"

fun card_loop :: "node list \<Rightarrow> (string \<times> string) list \<Rightarrow> (string \<times> string) list" where
  "card_loop [] specs = specs"
| "card_loop (spec_card # spec_tables) specs =
     card_loop spec_tables
       (row_loop (find_all ''div'' (class_is ''flex justify-between'') spec_card) specs)"

definition scrape_specs :: "node \<Rightarrow> (string \<times> string) list" where
  "scrape_specs soup =
     card_loop (find_all ''div'' (class_matches (truthy_with ''contentCard'')) soup) []"

text \<open>
  Line 189, \<open>bike_details.setdefault('fuel', {})['efficiency'] = v\<close>: the value under
  \<open>fuel\<close> is created when missing and then assigned into, which raises on anything but a
  dictionary.
\<close>

definition set_efficiency :: "string \<Rightarrow> dict \<Rightarrow> error + dict" where
  "set_efficiency v bike_details =
     (case map_of bike_details ''fuel'' of
        None \<Rightarrow> Inr (AList.update ''fuel'' (JObj [(''efficiency'', JStr v)]) bike_details)
      | Some (JObj fuel) \<Rightarrow>
          Inr (AList.update ''fuel''
                 (JObj (AList.update ''efficiency'' (JStr v) fuel)) bike_details)
      | Some x \<Rightarrow> Inl TypeError)"

text \<open>Lines 187 to 189: \<open>for k, v in specs.items()\<close>.\<close>

definition mileage_label :: "string \<Rightarrow> bool" where
  "mileage_label k = str_in ''mileage'' (lower k)"

fun mileage_loop :: "(string \<times> string) list \<Rightarrow> dict \<Rightarrow> error + dict" where
  "mileage_loop [] bike_details = Inr bike_details"
| "mileage_loop ((k, v) # items) bike_details =
     (if mileage_label k
      then and_then (set_efficiency v bike_details) (mileage_loop items)
      else mileage_loop items bike_details)"

definition specs_json :: "(string \<times> string) list \<Rightarrow> json" where
  "specs_json specs = JObj (map (\<lambda>(k, v). (k, JStr v)) specs)"

definition extract_detailed_bike_info ::
  "(string \<Rightarrow> json option) \<Rightarrow> node \<Rightarrow> error + dict" where
  "extract_detailed_bike_info loads soup =
     (let bike_details = structured_part loads soup;
          specs = scrape_specs soup
      in if specs \<noteq> [] then
           (let d1 = AList.update ''scraped_specs'' (specs_json specs) bike_details
            in if map_of d1 ''mileage'' = None then mileage_loop specs d1 else Inr d1)
         else Inr bike_details)"

section \<open>The per-item loop of \<open>main\<close>\<close>

text \<open>
  Lines 257 to 260: the merge of the list entry into the extracted details. Assigning
  \<open>details['basic_info']['name']\<close> raises when the value under \<open>basic_info\<close> is not a
  dictionary.
\<close>

definition merge_list_info :: "candidate \<Rightarrow> dict \<Rightarrow> error + dict" where
  "merge_list_info bike details =
     (let d1 = (if map_of details ''basic_info'' = None
                then AList.update ''basic_info'' (JObj []) details else details)
      in case map_of d1 ''basic_info'' of
           Some (JObj basic_info) \<Rightarrow>
             (let d2 = AList.update ''basic_info''
                         (JObj (AList.update ''name'' (JStr (title bike)) basic_info)) d1
              in Inr (case exshowroom_price bike of
                        Some p \<Rightarrow>
                          if map_of d2 ''price'' = None
                          then AList.update ''price''
                                 (JObj [(''value'', JStr p), (''currency'', JStr ''INR'')]) d2
                          else d2
                      | None \<Rightarrow> d2))
         | other \<Rightarrow> Inl TypeError)"

text \<open>
  Paths. \<open>output_dir / safe_filename\<close> and \<open>temp_dir / (... + ".html")\<close> are joins of
  \<open>pathlib\<close>: the name is cut at its slashes, empty components and \<open>.\<close> components are
  dropped (\<open>..\<close> is kept), and a name that begins with a slash replaces the directory. A path
  is its root (empty for a relative path, \<open>/\<close>, or \<open>//\<close> for exactly two leading slashes)
  and its components.
\<close>

type_synonym path = "string \<times> string list"

fun split_on :: "char \<Rightarrow> string \<Rightarrow> string list" where
  "split_on d [] = [[]]"
| "split_on d (c # cs) =
     (if c = d then [] # split_on d cs
      else (case split_on d cs of [] \<Rightarrow> [[c]] | p # ps \<Rightarrow> (c # p) # ps))"

definition path_root :: "string \<Rightarrow> string" where
  "path_root name =
     (if startswith name ''//'' \<and> \<not> startswith name ''///'' then ''//''
      else if startswith name ''/'' then ''/''
      else [])"

definition path_parts :: "string \<Rightarrow> string list" where
  "path_parts name = filter (\<lambda>p. p \<noteq> [] \<and> p \<noteq> ''.'') (split_on CHR ''/'' name)"

definition joinpath :: "path \<Rightarrow> string \<Rightarrow> path" where
  "joinpath d name =
     (if path_root name \<noteq> [] then (path_root name, path_parts name)
      else (fst d, snd d @ path_parts name))"

definition output_dir :: path where
  "output_dir = ([], [''data'', ''new_bike_details''])"

definition temp_dir :: path where
  "temp_dir = ([], [''.temp'', ''bikes_html''])"

text \<open>Lines 238 and 244: the two paths of an item.\<close>

definition json_path_of :: "string \<Rightarrow> path" where
  "json_path_of t = joinpath output_dir (safe_filename t)"

definition html_path_of :: "string \<Rightarrow> path" where
  "html_path_of t = joinpath temp_dir (html_filename t)"

text \<open>
  What the script does not compute itself:
  \<^item> \<open>http_get\<close>: \<open>requests.get\<close> with \<open>raise_for_status\<close>, \<open>None\<close> when either raises;
  \<^item> \<open>stat_fails\<close>: \<open>exists()\<close> on the path raises (a name that is too long, for one);
  \<^item> \<open>can_create\<close>: \<open>open(path, 'w')\<close> succeeds; it does not, for one, under a directory
    that does not exist, which is where a slash in a title points;
  \<^item> \<open>write_breaks\<close>: \<open>f.write\<close> of the page text raises, and what the file then holds;
  \<^item> \<open>dump_error\<close>: the exception that \<open>json.dump\<close> raises on the record, if any (a string
    that cannot be encoded, for one);
  \<^item> the HTML parser and \<open>json.loads\<close>.
\<close>

record world =
  http_get :: "string \<Rightarrow> string option"
  stat_fails :: "path \<Rightarrow> bool"
  can_create :: "path \<Rightarrow> bool"
  write_breaks :: "path \<Rightarrow> string \<Rightarrow> string option"
  dump_error :: "dict \<Rightarrow> error option"
  html_parser :: "string \<Rightarrow> node"
  json_loads :: "string \<Rightarrow> json option"

text \<open>
  The record files and the page files by path, and the counter of line 266. A record file
  holds the record that was dumped, or the cut-off text that a failed dump left. The
  operating system is taken to keep the files of two different paths apart (no links, no
  \<open>..\<close> that leads to a file reached otherwise), and a page file that exists can be read as
  text.
\<close>

datatype record_file = Saved dict | Truncated

record store =
  json_files :: "path \<rightharpoonup> record_file"
  html_files :: "path \<rightharpoonup> string"
  success_count :: nat

text \<open>
  \<open>download_page\<close>, lines 193 to 203. Every exception of the \<open>try\<close> block gives \<open>False\<close>.
  Line 198 creates the file before line 199 writes it, so a write that raises leaves the file
  behind.
\<close>

definition download_page :: "world \<Rightarrow> string \<Rightarrow> path \<Rightarrow> store \<Rightarrow> bool \<times> store" where
  "download_page w url output_path st =
     (case http_get w url of
        None \<Rightarrow> (False, st)
      | Some page \<Rightarrow>
          if \<not> can_create w output_path then (False, st)
          else (case write_breaks w output_path page of
                  Some left \<Rightarrow>
                    (False, st\<lparr>html_files := (html_files st)(output_path \<mapsto> left)\<rparr>)
                | None \<Rightarrow>
                    (True, st\<lparr>html_files := (html_files st)(output_path \<mapsto> page)\<rparr>)))"

text \<open>Lines 250 to 260 for one item whose page text has been read.\<close>

definition final_record :: "world \<Rightarrow> candidate \<Rightarrow> string \<Rightarrow> error + dict" where
  "final_record w bike page =
     and_then (extract_detailed_bike_info (json_loads w) (html_parser w page))
       (merge_list_info bike)"

text \<open>
  Lines 234 to 266. The loop ends, or an exception leaves \<open>main\<close>; either way the files are
  as the loop made them up to there.
\<close>

datatype outcome = Done store | Raised error store

fun bike_loop :: "world \<Rightarrow> candidate list \<Rightarrow> store \<Rightarrow> outcome" where
  "bike_loop w [] st = Done st"
| "bike_loop w (bike # bikes_list) st =
     (let json_path = json_path_of (title bike);
          html_path = html_path_of (title bike)
      in if stat_fails w json_path then Raised OSError st
         else if json_files st json_path \<noteq> None then bike_loop w bikes_list st
         else if stat_fails w html_path then Raised OSError st
         else
           (let (ok, st1) = (if html_files st html_path = None
                             then download_page w (link bike) html_path st
                             else (True, st))
            in if \<not> ok then bike_loop w bikes_list st1
               else
                 (case html_files st1 html_path of
                    None \<Rightarrow> Raised OSError st1
                  | Some page \<Rightarrow>
                      (case final_record w bike page of
                         Inl e \<Rightarrow> Raised e st1
                       | Inr details \<Rightarrow>
                           if \<not> can_create w json_path then Raised OSError st1
                           else
                             (case dump_error w details of
                                Some e \<Rightarrow>
                                  Raised e
                                    (st1\<lparr>json_files :=
                                           (json_files st1)(json_path \<mapsto> Truncated)\<rparr>)
                              | None \<Rightarrow>
                                  bike_loop w bikes_list
                                    (st1\<lparr>json_files :=
                                           (json_files st1)(json_path \<mapsto> Saved details),
                                         success_count := success_count st1 + 1\<rparr>))))))"

text \<open>
  The state of the files that a run leaves, whether it ended, and a second run of the loop
  over the files the first run left, its counter starting at zero as line 233 sets it.
\<close>

fun store_of :: "outcome \<Rightarrow> store" where
  "store_of (Done st) = st"
| "store_of (Raised e st) = st"

fun completed :: "outcome \<Rightarrow> bool" where
  "completed (Done st) = True"
| "completed (Raised e st) = False"

definition rerun :: "world \<Rightarrow> candidate list \<Rightarrow> store \<Rightarrow> outcome" where
  "rerun w bikes_list st =
     bike_loop w bikes_list ((store_of (bike_loop w bikes_list st))\<lparr>success_count := 0\<rparr>)"

section \<open>Example pages\<close>

text \<open>Concrete listing pages on which the theorems below are evaluated.\<close>

text \<open>A price search that finds nothing.\<close>

definition no_price :: "string \<Rightarrow> string option" where "no_price text = None"

definition grid_ul :: "node list \<Rightarrow> node" where
  "grid_ul items = Elem ''ul'' (Some [''grid'', ''grid-cols-1'', ''md:grid-cols-3'', ''gap-4'']) [] items"

definition dup_listing :: node where
  "dup_listing = Elem ''[document]'' None []
     [grid_ul
       [Elem ''li'' None [] [Elem ''a'' None [(''href'', ''/bikes/honda/cb350'')] [Txt NavigableString ''Honda CB350'']],
        Elem ''li'' None [] [Elem ''a'' None [(''href'', ''/bikes/honda/cb350'')] [Txt NavigableString ''CB350 offers'']]]]"

definition untitled_listing :: node where
  "untitled_listing = Elem ''[document]'' None []
     [grid_ul
       [Elem ''li'' None []
          [Elem ''a'' None [(''href'', ''/bikes/honda/cb350'')] [Elem ''img'' None [(''src'', ''/img/cb350.jpg'')] []],
           Elem ''a'' None [(''href'', ''/bikes/honda/cb350'')] [Txt NavigableString ''Honda CB350'']]]]"



text \<open>Two anchors to one page, the first relative and the second absolute.\<close>

definition mixed_listing :: node where
  "mixed_listing = Elem ''[document]'' None []
     [Elem ''a'' None [(''href'', ''/bikes/honda/cb350'')] [Txt NavigableString ''Honda CB350''],
      Elem ''a'' None [(''href'', ''https://www.carandbike.com/bikes/honda/cb350'')]
        [Txt NavigableString ''CB350 price'']]"

text \<open>
  Detail pages: a JSON parser and an HTML parser that know four small pages (a spec card
  alone; a script block cut short, with the card; a script block holding the empty object;
  a script block holding an object with a name, an offer and an engine), and a list entry.
\<close>

definition cb350_json :: string where
  \<open>cb350_json = ''{"name": "CB350", "offers": {"price": 205000}, "vehicleEngine": {"enginePower": "20.78 bhp"}}''\<close>

definition sample_loads :: "string \<Rightarrow> json option" where
  "sample_loads s =
     (if s = ''{}'' then Some (JObj [])
      else if s = cb350_json then
        Some (JObj [(''name'', JStr ''CB350''),
                    (''offers'', JObj [(''price'', JInt 205000)]),
                    (''vehicleEngine'', JObj [(''enginePower'', JStr ''20.78 bhp'')])])
      else None)"

definition ld_script :: "string \<Rightarrow> node" where
  "ld_script s = Elem ''script'' None
     [(''id'', ''product-schema-script''), (''type'', ''application/ld+json'')] [Txt Script s]"

definition ld_script_html :: "string \<Rightarrow> string" where
  \<open>ld_script_html s =
     ''<script id="product-schema-script" type="application/ld+json">'' @ s @ ''</script>''\<close>

definition spec_row :: "string \<Rightarrow> string \<Rightarrow> node" where
  "spec_row k v = Elem ''div'' (Some [''flex'', ''justify-between'']) []
     [Elem ''div'' None [] [Txt NavigableString k], Elem ''div'' None [] [Txt NavigableString v]]"

definition spec_row_html :: "string \<Rightarrow> string \<Rightarrow> string" where
  \<open>spec_row_html k v =
     ''<div class="flex justify-between"><div>'' @ k @ ''</div><div>'' @ v @ ''</div></div>''\<close>

definition mileage_card :: node where
  "mileage_card = Elem ''div'' (Some [''contentCard'']) []
     [spec_row ''Mileage (City)'' ''35 kmpl'', spec_row ''Mileage (Highway)'' ''45 kmpl'']"

definition mileage_card_html :: string where
  \<open>mileage_card_html = ''<div class="contentCard">'' @ spec_row_html ''Mileage (City)'' ''35 kmpl''
     @ spec_row_html ''Mileage (Highway)'' ''45 kmpl'' @ ''</div>''\<close>

definition specs_html :: string where
  "specs_html = mileage_card_html"

definition broken_html :: string where
  \<open>broken_html = ld_script_html ''{"name": '' @ mileage_card_html\<close>

definition empty_object_html :: string where
  "empty_object_html = ld_script_html ''{}''"

definition cb350_html :: string where
  "cb350_html = ld_script_html cb350_json"

definition sample_parser :: "string \<Rightarrow> node" where
  \<open>sample_parser page = Elem ''[document]'' None []
     (if page = specs_html then [mileage_card]
      else if page = broken_html then [ld_script ''{"name": '', mileage_card]
      else if page = empty_object_html then [ld_script ''{}'']
      else if page = cb350_html then [ld_script cb350_json]
      else [])\<close>

text \<open>
  The sample world: one address answers, every other download fails; files can be created
  directly in the two directories and nowhere else; nothing else goes wrong.
\<close>

definition in_cache_dirs :: "path \<Rightarrow> bool" where
  "in_cache_dirs p =
     (fst p = [] \<and> snd p \<noteq> []
      \<and> (butlast (snd p) = snd output_dir \<or> butlast (snd p) = snd temp_dir))"

definition sample_world :: world where
  "sample_world =
     \<lparr> http_get = (\<lambda>url. if url = ''https://www.carandbike.com/bikes/honda/cb350''
                             then Some cb350_html else None),
       stat_fails = (\<lambda>p. False),
       can_create = in_cache_dirs,
       write_breaks = (\<lambda>p page. None),
       dump_error = (\<lambda>d. None),
       html_parser = sample_parser,
       json_loads = sample_loads \<rparr>"

definition cb350 :: candidate where
  "cb350 = \<lparr> title = ''Honda CB350'', link = ''https://www.carandbike.com/bikes/honda/cb350'',
             image_link = None, exshowroom_price = Some ''2,05,000'' \<rparr>"

text \<open>Both directories empty and the counter at zero.\<close>

definition empty_store :: store where
  "empty_store = \<lparr> json_files = Map.empty, html_files = Map.empty, success_count = 0 \<rparr>"

text \<open>
  Two list entries whose titles differ by a leading \<open>./\<close>: the first has an address that
  does not answer, the second the address that does.
\<close>

definition dotted_bikes :: "candidate list" where
  "dotted_bikes =
     [\<lparr> title = ''CB350'', link = ''https://www.carandbike.com/bikes/cb350'',
         image_link = None, exshowroom_price = None \<rparr>,
      \<lparr> title = ''./CB350'', link = ''https://www.carandbike.com/bikes/honda/cb350'',
         image_link = None, exshowroom_price = None \<rparr>]"

text \<open>The sample world with a disk on which the write of a page raises, leaving it empty.\<close>

definition full_disk_world :: world where
  "full_disk_world = sample_world\<lparr> write_breaks := (\<lambda>p page. Some []) \<rparr>"

section \<open>Properties\<close>

lemma str_replace_single:
  "str_replace [a] [b] s = map (\<lambda>c. if c = a then b else c) s"
proof (induction s)
  case Nil
  show ?case by (subst str_replace.simps) simp
next
  case (Cons c cs)
  show ?case
  proof (cases "c = a")
    case True
    then show ?thesis using Cons.IH by (subst str_replace.simps) simp
  next
    case False
    then show ?thesis using Cons.IH by (subst str_replace.simps) simp
  qed
qed

text \<open>
  Claim C8. The record filename is the title with every space and every forward slash turned
  into an underscore, every other character kept, followed by \<open>.json\<close>.
\<close>

theorem safe_filename_spec:
  "safe_filename t =
     map (\<lambda>c. if c = CHR '' '' \<or> c = CHR ''/'' then CHR ''_'' else c) t @ ''.json''"
  by (simp add: safe_filename_def str_replace_single)

subsection \<open>List discovery\<close>

text \<open>
  The link-pattern loop, run on anchors that all carry an \<open>href\<close>, does not raise. What it
  appends comes, in document order, from anchors whose hrefs are pairwise different, not in
  \<open>seen_links\<close>, with more than two slashes, and whose stripped text is not empty.
\<close>

lemma link_loop_accepts:
  assumes "\<forall>a\<in>set links. attr a ''href'' \<noteq> None"
  shows "\<exists>acc. link_loop links bikes seen =
             Inr (bikes @ map (\<lambda>a. link_candidate (get_text_strip a) (attr_or_empty a ''href'')) acc)
         \<and> subseq acc links
         \<and> distinct (map (\<lambda>a. attr_or_empty a ''href'') acc)
         \<and> (\<forall>a\<in>set acc. attr_or_empty a ''href'' \<notin> seen
                \<and> 2 < str_count (attr_or_empty a ''href'') CHR ''/''
                \<and> get_text_strip a \<noteq> [])"
  using assms
proof (induction links arbitrary: bikes seen)
  case Nil
  show ?case by (rule exI [of _ "[]"]) simp
next
  case (Cons a links)
  from Cons.prems obtain h where h: "attr a ''href'' = Some h" by auto
  have rest: "\<forall>a\<in>set links. attr a ''href'' \<noteq> None" using Cons.prems by simp
  have ha: "attr_or_empty a ''href'' = h" using h by (simp add: attr_or_empty_def)
  show ?case
  proof (cases "h \<notin> seen \<and> 2 < str_count h CHR ''/'' \<and> get_text_strip a \<noteq> []")
    case True
    from Cons.IH [OF rest, of "bikes @ [link_candidate (get_text_strip a) h]" "insert h seen"]
    obtain acc where acc:
      "link_loop links (bikes @ [link_candidate (get_text_strip a) h]) (insert h seen) =
         Inr ((bikes @ [link_candidate (get_text_strip a) h]) @
              map (\<lambda>a. link_candidate (get_text_strip a) (attr_or_empty a ''href'')) acc)"
      "subseq acc links"
      "distinct (map (\<lambda>a. attr_or_empty a ''href'') acc)"
      "\<forall>a\<in>set acc. attr_or_empty a ''href'' \<notin> insert h seen
                \<and> 2 < str_count (attr_or_empty a ''href'') CHR ''/''
                \<and> get_text_strip a \<noteq> []"
      by blast
    show ?thesis
    proof (rule exI [of _ "a # acc"], intro conjI)
      show "link_loop (a # links) bikes seen =
         Inr (bikes @ map (\<lambda>a. link_candidate (get_text_strip a) (attr_or_empty a ''href'')) (a # acc))"
        using True h ha acc(1) by (simp add: Let_def)
      show "subseq (a # acc) (a # links)" using acc(2) by simp
      show "distinct (map (\<lambda>a. attr_or_empty a ''href'') (a # acc))"
        using acc(3,4) ha by auto
      show "\<forall>x\<in>set (a # acc). attr_or_empty x ''href'' \<notin> seen
                \<and> 2 < str_count (attr_or_empty x ''href'') CHR ''/''
                \<and> get_text_strip x \<noteq> []"
        using acc(4) True ha by auto
    qed
  next
    case False
    from Cons.IH [OF rest, of bikes seen]
    obtain acc where acc:
      "link_loop links bikes seen =
         Inr (bikes @ map (\<lambda>a. link_candidate (get_text_strip a) (attr_or_empty a ''href'')) acc)"
      "subseq acc links"
      "distinct (map (\<lambda>a. attr_or_empty a ''href'') acc)"
      "\<forall>a\<in>set acc. attr_or_empty a ''href'' \<notin> seen
                \<and> 2 < str_count (attr_or_empty a ''href'') CHR ''/''
                \<and> get_text_strip a \<noteq> []"
      by blast
    have "link_loop (a # links) bikes seen = link_loop links bikes seen"
      using False h by (auto simp: Let_def)
    moreover have "subseq acc (a # links)" using acc(2) by (rule list_emb_Cons)
    ultimately show ?thesis using acc(1,3,4) by (intro exI [of _ acc]) simp
  qed
qed

lemma bike_links_href: "\<forall>a\<in>set (bike_links soup). attr a ''href'' \<noteq> None"
  by (auto simp: bike_links_def find_all_def truthy_with_def split: option.splits)






text \<open>
  Claim C1 on a grid with two items that point to the same page: the grid strategy has no
  set of seen links, both items are returned, and their links are equal. (The link-pattern
  strategy keeps \<open>seen_links\<close>; the grid strategy does not.)
\<close>

theorem grid_duplicate_links:
  "fetch_bike_links_playwright no_price dup_listing =
     Inr [\<lparr>title = ''Honda CB350'', link = ''https://www.carandbike.com/bikes/honda/cb350'',
            image_link = None, exshowroom_price = None\<rparr>,
          \<lparr>title = ''CB350 offers'', link = ''https://www.carandbike.com/bikes/honda/cb350'',
            image_link = None, exshowroom_price = None\<rparr>]
   \<and> \<not> distinct [''https://www.carandbike.com/bikes/honda/cb350'',
                   ''https://www.carandbike.com/bikes/honda/cb350'']"
  by code_simp

text \<open>
  The link-pattern strategy returns equal links too, when one page is linked once with a
  relative and once with an absolute href: \<open>seen_links\<close> holds the hrefs as written, not the
  links made from them.
\<close>

lemma link_pattern_duplicate_links:
  "fetch_bike_links_playwright no_price mixed_listing =
     Inr [\<lparr>title = ''Honda CB350'', link = ''https://www.carandbike.com/bikes/honda/cb350'',
            image_link = None, exshowroom_price = None\<rparr>,
          \<lparr>title = ''CB350 price'', link = ''https://www.carandbike.com/bikes/honda/cb350'',
            image_link = None, exshowroom_price = None\<rparr>]"
  by code_simp

text \<open>
  What \<open>seen_links\<close> does give: the links of the link-pattern strategy are pairwise
  different on a page where making the hrefs absolute keeps different hrefs apart.
\<close>

lemma link_pattern_links_distinct:
  assumes "strategy_a ps soup = []"
    and "inj_on site_link (set (map (\<lambda>a. attr_or_empty a ''href'') (bike_links soup)))"
  shows "\<exists>cs. fetch_bike_links_playwright ps soup = Inr cs \<and> distinct (map link cs)"
proof -
  from link_loop_accepts [OF bike_links_href, of soup "[]" "{}"]
  obtain acc where acc:
    "link_loop (bike_links soup) [] {} =
       Inr ([] @ map (\<lambda>a. link_candidate (get_text_strip a) (attr_or_empty a ''href'')) acc)"
    "subseq acc (bike_links soup)"
    "distinct (map (\<lambda>a. attr_or_empty a ''href'') acc)"
    by blast
  have run: "fetch_bike_links_playwright ps soup =
       Inr (map (\<lambda>a. link_candidate (get_text_strip a) (attr_or_empty a ''href'')) acc)"
    using assms(1) acc(1) by (simp add: fetch_bike_links_playwright_def)
  have sub: "set acc \<subseteq> set (bike_links soup)"
    using acc(2) by (auto elim: list_emb_set)
  have inj: "inj_on site_link (set (map (\<lambda>a. attr_or_empty a ''href'') acc))"
    by (rule inj_on_subset [OF assms(2)]) (use sub in auto)
  have links: "map link (map (\<lambda>a. link_candidate (get_text_strip a) (attr_or_empty a ''href'')) acc)
      = map site_link (map (\<lambda>a. attr_or_empty a ''href'') acc)"
    by (simp add: link_candidate_def)
  have "distinct (map site_link (map (\<lambda>a. attr_or_empty a ''href'') acc))"
    using acc(3) inj by (simp only: distinct_map)
  then have "distinct (map link
      (map (\<lambda>a. link_candidate (get_text_strip a) (attr_or_empty a ''href'')) acc))"
    by (simp only: links)
  with run show ?thesis by blast
qed

text \<open>
  Claim C6 on a grid item whose first anchor wraps only an image: the grid strategy returns
  a candidate with an empty title. (The link-pattern strategy tests \<open>if title:\<close>; the grid
  strategy does not.)
\<close>

theorem grid_empty_title:
  "fetch_bike_links_playwright no_price untitled_listing =
     Inr [\<lparr>title = [], link = ''https://www.carandbike.com/bikes/honda/cb350'',
            image_link = Some ''/img/cb350.jpg'', exshowroom_price = None\<rparr>]"
  by code_simp

text \<open>What does hold of the candidates: the link never is empty.\<close>

lemma site_link_nonempty: "site_link href \<noteq> []"
  by (cases href) (simp_all add: site_link_def)

lemma extract_list_item_link:
  assumes "extract_list_item ps li = Some bike"
  shows "link bike \<noteq> []"
  using assms
  by (auto simp: extract_list_item_def Let_def site_link_nonempty split: option.splits)

lemma li_loop_links:
  assumes "\<forall>b\<in>set bikes. link b \<noteq> []"
  shows "\<forall>b\<in>set (li_loop ps lis bikes). link b \<noteq> []"
  using assms
proof (induction lis arbitrary: bikes)
  case Nil
  then show ?case by simp
next
  case (Cons li lis)
  show ?case
  proof (cases "extract_list_item ps li")
    case None
    then show ?thesis using Cons by simp
  next
    case (Some bike)
    have "\<forall>b\<in>set (bikes @ [bike]). link b \<noteq> []"
      using Cons.prems extract_list_item_link [OF Some] by simp
    from Cons.IH [OF this] show ?thesis using Some by simp
  qed
qed

lemma ul_loop_links:
  assumes "\<forall>b\<in>set bikes. link b \<noteq> []"
  shows "\<forall>b\<in>set (ul_loop ps uls bikes). link b \<noteq> []"
  using assms
proof (induction uls arbitrary: bikes)
  case Nil
  then show ?case by simp
next
  case (Cons ul uls)
  have "\<forall>b\<in>set (li_loop ps (find_children ''li'' ul) bikes). link b \<noteq> []"
    by (rule li_loop_links [OF Cons.prems])
  from Cons.IH [OF this] show ?case by simp
qed

text \<open>Every candidate of either strategy has a non-empty link.\<close>

lemma discovery_links_nonempty:
  assumes "fetch_bike_links_playwright ps soup = Inr cs"
  shows "\<forall>c\<in>set cs. link c \<noteq> []"
proof (cases "strategy_a ps soup = []")
  case True
  from link_loop_accepts [OF bike_links_href, of soup "[]" "{}"]
  obtain acc where
    "link_loop (bike_links soup) [] {} =
       Inr ([] @ map (\<lambda>a. link_candidate (get_text_strip a) (attr_or_empty a ''href'')) acc)"
    by blast
  then have "cs = map (\<lambda>a. link_candidate (get_text_strip a) (attr_or_empty a ''href'')) acc"
    using True assms by (simp add: fetch_bike_links_playwright_def)
  then show ?thesis by (simp add: link_candidate_def site_link_nonempty)
next
  case False
  then have "cs = ul_loop ps (find_all ''ul'' (class_matches is_grid) soup) []"
    using assms by (simp add: fetch_bike_links_playwright_def strategy_a_def)
  then show ?thesis using ul_loop_links [of "[]"] by simp
qed

text \<open>Every candidate of the link-pattern strategy has a non-empty title.\<close>

lemma link_pattern_titles_nonempty:
  assumes "strategy_a ps soup = []" and "fetch_bike_links_playwright ps soup = Inr cs"
  shows "\<forall>c\<in>set cs. title c \<noteq> []"
proof -
  from link_loop_accepts [OF bike_links_href, of soup "[]" "{}"]
  obtain acc where acc:
    "link_loop (bike_links soup) [] {} =
       Inr ([] @ map (\<lambda>a. link_candidate (get_text_strip a) (attr_or_empty a ''href'')) acc)"
    "\<forall>a\<in>set acc. attr_or_empty a ''href'' \<notin> {}
                \<and> 2 < str_count (attr_or_empty a ''href'') CHR ''/''
                \<and> get_text_strip a \<noteq> []"
    by blast
  have "cs = map (\<lambda>a. link_candidate (get_text_strip a) (attr_or_empty a ''href'')) acc"
    using assms acc(1) by (simp add: fetch_bike_links_playwright_def)
  then show ?thesis using acc(2) by (simp add: link_candidate_def)
qed

subsection \<open>Detail extraction and merge\<close>

lemma basic_info_of_JObj:
  "basic_info_of (JObj d) =
     Inr (JObj [(''name'', dict_get d ''name''), (''manufacturer'', dict_get d ''manufacturer''),
                (''model'', dict_get d ''model''), (''body_type'', dict_get d ''bodyType''),
                (''description'', dict_get d ''description''), (''sku'', dict_get d ''sku'')])"
  by (simp add: basic_info_of_def and_then_def)

lemma basic_info_of_Inr:
  assumes "basic_info_of data = Inr bi"
  shows "\<exists>d. data = JObj d"
  using assms by (cases data) (simp_all add: basic_info_of_def and_then_def)

lemma map_of_set_opt:
  "map_of (set_opt k v d) k' = (if k' = k \<and> v \<noteq> None then v else map_of d k')"
  by (cases v) (simp_all add: set_opt_def update_conv')

text \<open>The keys the try block can write, and the shape of what it writes under basic_info.\<close>

lemma json_ld_fields_other:
  assumes "k \<noteq> ''basic_info''" "k \<noteq> ''engine''" "k \<noteq> ''price''" "k \<noteq> ''brand''"
  shows "map_of (fst (json_ld_fields parsed bd)) k = map_of bd k"
  using assms
  by (simp add: json_ld_fields_def Let_def map_of_set_opt update_conv' split: sum.splits)

lemma json_ld_fields_basic_info:
  "map_of (fst (json_ld_fields parsed bd)) ''basic_info'' = map_of bd ''basic_info''
   \<or> (\<exists>data d. unwrap_graph parsed = Inr (JObj d) \<and>
        basic_info_of (JObj d) = Inr data \<and>
        map_of (fst (json_ld_fields parsed bd)) ''basic_info'' = Some data)"
proof (cases "unwrap_graph parsed")
  case (Inl e)
  then show ?thesis by (simp add: json_ld_fields_def)
next
  case (Inr data)
  show ?thesis
  proof (cases "basic_info_of data")
    case (Inl e)
    then show ?thesis using Inr by (simp add: json_ld_fields_def)
  next
    case bi: (Inr bi)
    then obtain d where d: "data = JObj d" using basic_info_of_Inr by blast
    have "map_of (fst (json_ld_fields parsed bd)) ''basic_info'' = Some bi"
      using Inr bi
      by (simp add: json_ld_fields_def Let_def map_of_set_opt update_conv' split: sum.splits)
    then show ?thesis using Inr bi d by auto
  qed
qed

lemma set_efficiency_fresh:
  assumes "map_of bd ''fuel'' = None \<or> (\<exists>x. map_of bd ''fuel'' = Some (JObj [(''efficiency'', JStr x)]))"
  shows "set_efficiency v bd = Inr (AList.update ''fuel'' (JObj [(''efficiency'', JStr v)]) bd)"
  using assms by (auto simp: set_efficiency_def)

lemma mileage_loop_result:
  assumes "map_of bd ''fuel'' = None \<or> (\<exists>x. map_of bd ''fuel'' = Some (JObj [(''efficiency'', JStr x)]))"
  shows "\<exists>d. mileage_loop items bd = Inr d
           \<and> (\<forall>k. k \<noteq> ''fuel'' \<longrightarrow> map_of d k = map_of bd k)
           \<and> map_of d ''fuel'' =
               (if filter (\<lambda>kv. mileage_label (fst kv)) items = []
                then map_of bd ''fuel''
                else Some (JObj [(''efficiency'',
                       JStr (snd (last (filter (\<lambda>kv. mileage_label (fst kv)) items))))]))"
  using assms
proof (induction items arbitrary: bd)
  case Nil
  show ?case by simp
next
  case (Cons kv items)
  obtain k v where kv: "kv = (k, v)" by (cases kv)
  show ?case
  proof (cases "mileage_label k")
    case False
    have flt: "filter (\<lambda>kv. mileage_label (fst kv)) (kv # items) =
               filter (\<lambda>kv. mileage_label (fst kv)) items"
      using False kv by simp
    have step: "mileage_loop (kv # items) bd = mileage_loop items bd"
      using False kv by simp
    show ?thesis using Cons.IH [OF Cons.prems] by (simp only: flt step)
  next
    case True
    let ?bd = "AList.update ''fuel'' (JObj [(''efficiency'', JStr v)]) bd"
    have step: "mileage_loop (kv # items) bd = mileage_loop items ?bd"
      using True kv set_efficiency_fresh [OF Cons.prems, of v] by (simp add: and_then_def)
    have fuel: "map_of ?bd ''fuel'' = Some (JObj [(''efficiency'', JStr v)])"
      by (simp add: update_conv')
    have other: "\<forall>k. k \<noteq> ''fuel'' \<longrightarrow> map_of ?bd k = map_of bd k"
      by (simp add: update_conv')
    have "map_of ?bd ''fuel'' = None
          \<or> (\<exists>x. map_of ?bd ''fuel'' = Some (JObj [(''efficiency'', JStr x)]))"
      using fuel by simp
    from Cons.IH [OF this] obtain d where d:
      "mileage_loop items ?bd = Inr d"
      "\<forall>k. k \<noteq> ''fuel'' \<longrightarrow> map_of d k = map_of ?bd k"
      "map_of d ''fuel'' =
         (if filter (\<lambda>kv. mileage_label (fst kv)) items = []
          then map_of ?bd ''fuel''
          else Some (JObj [(''efficiency'',
                 JStr (snd (last (filter (\<lambda>kv. mileage_label (fst kv)) items))))]))"
      by blast
    show ?thesis
    proof (intro exI [of _ d] conjI)
      show "mileage_loop (kv # items) bd = Inr d" using step d(1) by simp
      show "\<forall>k. k \<noteq> ''fuel'' \<longrightarrow> map_of d k = map_of bd k" using d(2) other by simp
      show "map_of d ''fuel'' =
         (if filter (\<lambda>kv. mileage_label (fst kv)) (kv # items) = []
          then map_of bd ''fuel''
          else Some (JObj [(''efficiency'',
                 JStr (snd (last (filter (\<lambda>kv. mileage_label (fst kv)) (kv # items)))))]))"
        using d(3) fuel True kv by simp
    qed
  qed
qed

lemma structured_part_other:
  assumes "k \<noteq> ''basic_info''" "k \<noteq> ''engine''" "k \<noteq> ''price''" "k \<noteq> ''brand''"
  shows "map_of (structured_part loads soup) k = None"
  using json_ld_fields_other [OF assms, of _ "[]"]
  by (simp add: structured_part_def split: option.splits sum.splits)

text \<open>The extractor does not raise; it adds scraped_specs and fuel to the structured part.\<close>

lemma extract_result:
  "\<exists>d. extract_detailed_bike_info loads soup = Inr d
       \<and> (\<forall>k. k \<noteq> ''fuel'' \<and> k \<noteq> ''scraped_specs'' \<longrightarrow>
              map_of d k = map_of (structured_part loads soup) k)
       \<and> map_of d ''fuel'' =
           (if filter (\<lambda>kv. mileage_label (fst kv)) (scrape_specs soup) = []
            then None
            else Some (JObj [(''efficiency'',
                   JStr (snd (last (filter (\<lambda>kv. mileage_label (fst kv))
                                      (scrape_specs soup)))))]))"
proof (cases "scrape_specs soup = []")
  case True
  then show ?thesis
    by (simp add: extract_detailed_bike_info_def structured_part_other)
next
  case False
  let ?d1 = "AList.update ''scraped_specs'' (specs_json (scrape_specs soup))
               (structured_part loads soup)"
  have m: "map_of ?d1 ''mileage'' = None"
    by (simp add: update_conv' structured_part_other)
  have f: "map_of ?d1 ''fuel'' = None"
    by (simp add: update_conv' structured_part_other)
  have run: "extract_detailed_bike_info loads soup = mileage_loop (scrape_specs soup) ?d1"
    using False m by (simp add: extract_detailed_bike_info_def Let_def)
  from mileage_loop_result [of ?d1 "scrape_specs soup"] f obtain d where d:
    "mileage_loop (scrape_specs soup) ?d1 = Inr d"
    "\<forall>k. k \<noteq> ''fuel'' \<longrightarrow> map_of d k = map_of ?d1 k"
    "map_of d ''fuel'' =
       (if filter (\<lambda>kv. mileage_label (fst kv)) (scrape_specs soup) = []
        then map_of ?d1 ''fuel''
        else Some (JObj [(''efficiency'',
               JStr (snd (last (filter (\<lambda>kv. mileage_label (fst kv))
                                  (scrape_specs soup)))))]))"
    by blast
  show ?thesis
  proof (intro exI [of _ d] conjI)
    show "extract_detailed_bike_info loads soup = Inr d" using run d(1) by simp
    show "\<forall>k. k \<noteq> ''fuel'' \<and> k \<noteq> ''scraped_specs'' \<longrightarrow>
              map_of d k = map_of (structured_part loads soup) k"
      using d(2) by (simp add: update_conv')
    show "map_of d ''fuel'' =
           (if filter (\<lambda>kv. mileage_label (fst kv)) (scrape_specs soup) = []
            then None
            else Some (JObj [(''efficiency'',
                   JStr (snd (last (filter (\<lambda>kv. mileage_label (fst kv))
                                      (scrape_specs soup)))))]))"
      using d(3) f by simp
  qed
qed

lemma structured_part_basic_info:
  "map_of (structured_part loads soup) ''basic_info'' = None
   \<or> (\<exists>bi. map_of (structured_part loads soup) ''basic_info'' = Some (JObj bi))"
proof (cases "load_json_ld loads soup")
  case None
  then show ?thesis by (simp add: structured_part_def)
next
  case (Some r)
  show ?thesis
  proof (cases r)
    case (Inl e)
    then show ?thesis using Some by (simp add: structured_part_def)
  next
    case (Inr parsed)
    have sp: "structured_part loads soup = fst (json_ld_fields parsed [])"
      using Some Inr by (simp add: structured_part_def)
    from json_ld_fields_basic_info [of parsed "[]"] show ?thesis
      unfolding sp by (auto simp: basic_info_of_JObj)
  qed
qed

lemma merge_list_info_result:
  assumes "map_of details ''basic_info'' = None
           \<or> (\<exists>bi. map_of details ''basic_info'' = Some (JObj bi))"
  shows "\<exists>r bi. merge_list_info bike details = Inr r
     \<and> map_of r ''basic_info'' = Some (JObj (AList.update ''name'' (JStr (title bike)) bi))
     \<and> (map_of details ''basic_info'' = None \<and> bi = []
         \<or> map_of details ''basic_info'' = Some (JObj bi))
     \<and> map_of r ''price'' =
          (case map_of details ''price'' of
             Some v \<Rightarrow> Some v
           | None \<Rightarrow> (case exshowroom_price bike of
                        Some p \<Rightarrow> Some (JObj [(''value'', JStr p), (''currency'', JStr ''INR'')])
                      | None \<Rightarrow> None))
     \<and> (\<forall>k. k \<noteq> ''basic_info'' \<and> k \<noteq> ''price'' \<longrightarrow> map_of r k = map_of details k)"
  using assms
  by (auto simp: merge_list_info_def Let_def update_conv' split: option.splits)

lemma final_record_result:
  obtains details r bi where
    "extract_detailed_bike_info (json_loads w) (html_parser w page) = Inr details"
    "final_record w bike page = Inr r"
    "map_of r ''basic_info'' = Some (JObj (AList.update ''name'' (JStr (title bike)) bi))"
    "map_of (structured_part (json_loads w) (html_parser w page)) ''basic_info'' = None \<and> bi = []
        \<or> map_of (structured_part (json_loads w) (html_parser w page)) ''basic_info'' = Some (JObj bi)"
    "map_of r ''price'' =
          (case map_of details ''price'' of
             Some v \<Rightarrow> Some v
           | None \<Rightarrow> (case exshowroom_price bike of
                        Some p \<Rightarrow> Some (JObj [(''value'', JStr p), (''currency'', JStr ''INR'')])
                      | None \<Rightarrow> None))"
    "\<forall>k. k \<noteq> ''basic_info'' \<and> k \<noteq> ''price'' \<longrightarrow> map_of r k = map_of details k"
proof -
  let ?sp = "structured_part (json_loads w) (html_parser w page)"
  from extract_result [of "json_loads w" "html_parser w page"] obtain details where d:
    "extract_detailed_bike_info (json_loads w) (html_parser w page) = Inr details"
    "\<forall>k. k \<noteq> ''fuel'' \<and> k \<noteq> ''scraped_specs'' \<longrightarrow> map_of details k = map_of ?sp k"
    by blast
  have bi_eq: "map_of details ''basic_info'' = map_of ?sp ''basic_info''"
    using d(2) by simp
  have shape: "map_of details ''basic_info'' = None
               \<or> (\<exists>bi. map_of details ''basic_info'' = Some (JObj bi))"
    using structured_part_basic_info [of "json_loads w" "html_parser w page"] bi_eq by simp
  from merge_list_info_result [OF shape, of bike] obtain r bi where r:
    "merge_list_info bike details = Inr r"
    "map_of r ''basic_info'' = Some (JObj (AList.update ''name'' (JStr (title bike)) bi))"
    "map_of details ''basic_info'' = None \<and> bi = []
       \<or> map_of details ''basic_info'' = Some (JObj bi)"
    "map_of r ''price'' =
          (case map_of details ''price'' of
             Some v \<Rightarrow> Some v
           | None \<Rightarrow> (case exshowroom_price bike of
                        Some p \<Rightarrow> Some (JObj [(''value'', JStr p), (''currency'', JStr ''INR'')])
                      | None \<Rightarrow> None))"
    "\<forall>k. k \<noteq> ''basic_info'' \<and> k \<noteq> ''price'' \<longrightarrow> map_of r k = map_of details k"
    by blast
  have fr: "final_record w bike page = Inr r"
    using d(1) r(1) by (simp add: final_record_def and_then_def)
  show ?thesis
    by (rule that [OF d(1) fr r(2) r(3) [unfolded bi_eq] r(4) r(5)])
qed

text \<open>
  Claim C2. Whatever the two extractors return for a page, the final record exists (nothing
  raises), it has a \<open>basic_info\<close> dictionary, and the \<open>name\<close> in it is the title of the list
  entry.
\<close>

theorem final_record_name:
  "\<exists>r bi. final_record w bike page = Inr r
         \<and> map_of r ''basic_info'' = Some (JObj bi)
         \<and> map_of bi ''name'' = Some (JStr (title bike))"
proof -
  obtain details r bi where
    "final_record w bike page = Inr r"
    "map_of r ''basic_info'' = Some (JObj (AList.update ''name'' (JStr (title bike)) bi))"
    by (rule final_record_result [of w page bike])
  moreover have "map_of (AList.update ''name'' (JStr (title bike)) bi) ''name''
                 = Some (JStr (title bike))"
    by (simp add: update_conv')
  ultimately show ?thesis by blast
qed

text \<open>
  Claim C3. When the extracted details have no \<open>price\<close> entry and the list entry carries a
  price text, the final record's \<open>price\<close> is exactly that text as \<open>value\<close> with the currency
  \<open>INR\<close>; when the details have a \<open>price\<close> entry, the final record has that entry unchanged.
\<close>

theorem list_price_fills_missing_price:
  assumes "extract_detailed_bike_info (json_loads w) (html_parser w page) = Inr details"
  shows "(map_of details ''price'' = None \<and> exshowroom_price bike = Some p \<longrightarrow>
            (\<exists>r. final_record w bike page = Inr r
                \<and> map_of r ''price'' = Some (JObj [(''value'', JStr p), (''currency'', JStr ''INR'')])))
       \<and> (map_of details ''price'' = Some v \<longrightarrow>
            (\<exists>r. final_record w bike page = Inr r \<and> map_of r ''price'' = Some v))"
proof -
  obtain details' r bi where r:
    "extract_detailed_bike_info (json_loads w) (html_parser w page) = Inr details'"
    "final_record w bike page = Inr r"
    "map_of r ''price'' =
          (case map_of details' ''price'' of
             Some v \<Rightarrow> Some v
           | None \<Rightarrow> (case exshowroom_price bike of
                        Some p \<Rightarrow> Some (JObj [(''value'', JStr p), (''currency'', JStr ''INR'')])
                      | None \<Rightarrow> None))"
    by (rule final_record_result [of w page bike])
  have "details' = details" using r(1) assms by simp
  then show ?thesis using r(2,3) by auto
qed

theorem list_price_fills_missing_price_witness:
  "extract_detailed_bike_info (json_loads sample_world) (html_parser sample_world empty_object_html) =
     Inr [(''basic_info'', JObj [(''name'', JNull), (''manufacturer'', JNull), (''model'', JNull),
            (''body_type'', JNull), (''description'', JNull), (''sku'', JNull)])]
   \<and> (\<exists>r. final_record sample_world cb350 empty_object_html = Inr r
          \<and> map_of r ''price'' = Some (JObj [(''value'', JStr ''2,05,000''), (''currency'', JStr ''INR'')]))
   \<and> extract_detailed_bike_info (json_loads sample_world) (html_parser sample_world cb350_html) =
     Inr [(''basic_info'', JObj [(''name'', JStr ''CB350''), (''manufacturer'', JNull),
            (''model'', JNull), (''body_type'', JNull), (''description'', JNull), (''sku'', JNull)]),
          (''engine'', JObj [(''displacement'', JNull), (''power'', JStr ''20.78 bhp''),
            (''torque'', JNull), (''fuel_type'', JNull)]),
          (''price'', JObj [(''value'', JInt 205000), (''currency'', JNull),
            (''availability'', JNull)])]
   \<and> (\<exists>r. final_record sample_world cb350 cb350_html = Inr r
          \<and> map_of r ''price'' = Some (JObj [(''value'', JInt 205000), (''currency'', JNull),
            (''availability'', JNull)]))"
proof -
  have e1: "extract_detailed_bike_info (json_loads sample_world) (html_parser sample_world empty_object_html) =
     Inr [(''basic_info'', JObj [(''name'', JNull), (''manufacturer'', JNull), (''model'', JNull),
            (''body_type'', JNull), (''description'', JNull), (''sku'', JNull)])]"
    by code_simp
  have e2: "extract_detailed_bike_info (json_loads sample_world) (html_parser sample_world cb350_html) =
     Inr [(''basic_info'', JObj [(''name'', JStr ''CB350''), (''manufacturer'', JNull),
            (''model'', JNull), (''body_type'', JNull), (''description'', JNull), (''sku'', JNull)]),
          (''engine'', JObj [(''displacement'', JNull), (''power'', JStr ''20.78 bhp''),
            (''torque'', JNull), (''fuel_type'', JNull)]),
          (''price'', JObj [(''value'', JInt 205000), (''currency'', JNull),
            (''availability'', JNull)])]"
    by code_simp
  have p: "exshowroom_price cb350 = Some ''2,05,000''" by (simp add: cb350_def)
  show ?thesis
    using list_price_fills_missing_price [OF e1, of cb350 "''2,05,000''"]
          list_price_fills_missing_price [OF e2, of cb350 _ "JObj [(''value'', JInt 205000), (''currency'', JNull),
            (''availability'', JNull)]"] e1 e2 p
    by simp
qed

text \<open>
  Claim C4. When the page has no structured data block, or reading it raises (no single
  string in the tag, or text that does not parse), the extractor returns a dictionary, that is
  it does not raise, and the dictionary has no \<open>basic_info\<close>, \<open>engine\<close>, \<open>price\<close> or
  \<open>brand\<close>.
\<close>

theorem unparsed_block_leaves_no_structured_field:
  assumes "load_json_ld loads soup = None \<or> load_json_ld loads soup = Some (Inl e)"
  shows "\<exists>d. extract_detailed_bike_info loads soup = Inr d
           \<and> map_of d ''basic_info'' = None \<and> map_of d ''engine'' = None
           \<and> map_of d ''price'' = None \<and> map_of d ''brand'' = None"
proof -
  have sp: "structured_part loads soup = []"
    using assms by (auto simp: structured_part_def)
  from extract_result [of loads soup] obtain d where d:
    "extract_detailed_bike_info loads soup = Inr d"
    "\<forall>k. k \<noteq> ''fuel'' \<and> k \<noteq> ''scraped_specs'' \<longrightarrow> map_of d k = map_of (structured_part loads soup) k"
    by blast
  have "map_of d ''basic_info'' = None" using d(2) sp by simp
  moreover have "map_of d ''engine'' = None" using d(2) sp by simp
  moreover have "map_of d ''price'' = None" using d(2) sp by simp
  moreover have "map_of d ''brand'' = None" using d(2) sp by simp
  ultimately show ?thesis using d(1) by blast
qed

theorem unparsed_block_leaves_no_structured_field_witness:
  "(load_json_ld sample_loads (sample_parser specs_html) = None
    \<or> load_json_ld sample_loads (sample_parser specs_html) = Some (Inl ValueError))
   \<and> (\<exists>d. extract_detailed_bike_info sample_loads (sample_parser specs_html) = Inr d
           \<and> map_of d ''basic_info'' = None \<and> map_of d ''engine'' = None
           \<and> map_of d ''price'' = None \<and> map_of d ''brand'' = None)
   \<and> (load_json_ld sample_loads (sample_parser broken_html) = None
    \<or> load_json_ld sample_loads (sample_parser broken_html) = Some (Inl ValueError))
   \<and> (\<exists>d. extract_detailed_bike_info sample_loads (sample_parser broken_html) = Inr d
           \<and> map_of d ''basic_info'' = None \<and> map_of d ''engine'' = None
           \<and> map_of d ''price'' = None \<and> map_of d ''brand'' = None)"
proof -
  have a: "load_json_ld sample_loads (sample_parser specs_html) = None" by code_simp
  have b: "load_json_ld sample_loads (sample_parser broken_html) = Some (Inl ValueError)"
    by code_simp
  from a have a': "load_json_ld sample_loads (sample_parser specs_html) = None
    \<or> load_json_ld sample_loads (sample_parser specs_html) = Some (Inl ValueError)" by simp
  from b have b': "load_json_ld sample_loads (sample_parser broken_html) = None
    \<or> load_json_ld sample_loads (sample_parser broken_html) = Some (Inl ValueError)" by simp
  show ?thesis
    using a' b' unparsed_block_leaves_no_structured_field [OF a']
      unparsed_block_leaves_no_structured_field [OF b']
    by blast
qed

text \<open>
  Claim C5, as amended. When the scraped spec mapping has a label that contains
  \<open>mileage\<close>, letter case ignored, the extractor sets \<open>fuel.efficiency\<close> to the value of the
  last such label in scan order: every matching label overwrites the value set before it.
\<close>

theorem last_mileage_label_wins:
  assumes "filter (\<lambda>kv. mileage_label (fst kv)) (scrape_specs soup) \<noteq> []"
  shows "\<exists>d. extract_detailed_bike_info loads soup = Inr d
           \<and> map_of d ''fuel'' =
               Some (JObj [(''efficiency'',
                 JStr (snd (last (filter (\<lambda>kv. mileage_label (fst kv)) (scrape_specs soup)))))])"
  using extract_result [of loads soup] assms by auto

theorem last_mileage_label_wins_witness:
  "filter (\<lambda>kv. mileage_label (fst kv)) (scrape_specs (sample_parser specs_html)) \<noteq> []
   \<and> (\<exists>d. extract_detailed_bike_info sample_loads (sample_parser specs_html) = Inr d
           \<and> map_of d ''fuel'' = Some (JObj [(''efficiency'', JStr ''45 kmpl'')]))"
proof -
  have f: "filter (\<lambda>kv. mileage_label (fst kv)) (scrape_specs (sample_parser specs_html))
           = [(''Mileage (City)'', ''35 kmpl''), (''Mileage (Highway)'', ''45 kmpl'')]"
    by code_simp
  then have ne: "filter (\<lambda>kv. mileage_label (fst kv)) (scrape_specs (sample_parser specs_html)) \<noteq> []"
    by simp
  show ?thesis
    using ne last_mileage_label_wins [OF ne, of sample_loads] by (simp add: f)
qed

text \<open>
  Claim C5 as stated fails on a spec card with two mileage rows: the value of the first
  matching label, \<open>35 kmpl\<close>, is overwritten by the second.
\<close>

theorem first_mileage_label_overwritten:
  "scrape_specs (sample_parser specs_html) =
     [(''Mileage (City)'', ''35 kmpl''), (''Mileage (Highway)'', ''45 kmpl'')]
   \<and> extract_detailed_bike_info sample_loads (sample_parser specs_html) =
     Inr [(''scraped_specs'', JObj [(''Mileage (City)'', JStr ''35 kmpl''),
                                     (''Mileage (Highway)'', JStr ''45 kmpl'')]),
          (''fuel'', JObj [(''efficiency'', JStr ''45 kmpl'')])]"
  by code_simp

lemma engine_of_JObj:
  assumes "map_of d ''vehicleEngine'' = Some (JObj en)"
  shows "engine_of (JObj d) =
     Inr (Some (JObj [(''displacement'', dict_get en ''engineDisplacement''),
                      (''power'', dict_get en ''enginePower''),
                      (''torque'', dict_get en ''torque''),
                      (''fuel_type'', dict_get en ''fuelType'')]))"
  using assms by (simp add: engine_of_def and_then_def)

lemma json_ld_fields_object:
  assumes "unwrap_graph parsed = Inr (JObj d)"
  shows "map_of (fst (json_ld_fields parsed bd)) ''basic_info'' =
     Some (JObj [(''name'', dict_get d ''name''), (''manufacturer'', dict_get d ''manufacturer''),
                (''model'', dict_get d ''model''), (''body_type'', dict_get d ''bodyType''),
                (''description'', dict_get d ''description''), (''sku'', dict_get d ''sku'')])"
  using assms
  by (simp add: json_ld_fields_def basic_info_of_JObj Let_def map_of_set_opt update_conv'
           split: sum.splits)

lemma json_ld_fields_engine:
  assumes "unwrap_graph parsed = Inr (JObj d)"
    and "map_of d ''vehicleEngine'' = Some (JObj en)"
  shows "map_of (fst (json_ld_fields parsed bd)) ''engine'' =
     Some (JObj [(''displacement'', dict_get en ''engineDisplacement''),
                 (''power'', dict_get en ''enginePower''),
                 (''torque'', dict_get en ''torque''),
                 (''fuel_type'', dict_get en ''fuelType'')])"
  using assms(1) engine_of_JObj [OF assms(2)]
  by (simp add: json_ld_fields_def basic_info_of_JObj Let_def map_of_set_opt update_conv'
        split: sum.splits)

text \<open>
  Claim C10, as amended. When the structured block parses and, after unwrapping, is an
  object, the final record's \<open>basic_info\<close> has every one of the keys \<open>manufacturer\<close>,
  \<open>model\<close>, \<open>body_type\<close>, \<open>description\<close> and \<open>sku\<close>, and its \<open>engine\<close>, when the block gives
  \<open>vehicleEngine\<close> as an object, has every one of its four keys; the value is the block's
  value, and \<open>None\<close> (written as null) for a field the block lacks, which is what
  \<^const>\<open>dict_get\<close> returns on a missing key.
\<close>

theorem absent_leaf_fields_are_null:
  assumes "load_json_ld (json_loads w) (html_parser w page) = Some (Inr parsed)"
    and "unwrap_graph parsed = Inr (JObj d)"
  shows "\<exists>r bi. final_record w bike page = Inr r
     \<and> map_of r ''basic_info'' = Some (JObj bi)
     \<and> map_of bi ''manufacturer'' = Some (dict_get d ''manufacturer'')
     \<and> map_of bi ''model'' = Some (dict_get d ''model'')
     \<and> map_of bi ''body_type'' = Some (dict_get d ''bodyType'')
     \<and> map_of bi ''description'' = Some (dict_get d ''description'')
     \<and> map_of bi ''sku'' = Some (dict_get d ''sku'')
     \<and> (\<forall>en. map_of d ''vehicleEngine'' = Some (JObj en) \<longrightarrow>
           map_of r ''engine'' =
             Some (JObj [(''displacement'', dict_get en ''engineDisplacement''),
                         (''power'', dict_get en ''enginePower''),
                         (''torque'', dict_get en ''torque''),
                         (''fuel_type'', dict_get en ''fuelType'')]))"
proof -
  let ?sp = "structured_part (json_loads w) (html_parser w page)"
  let ?bi0 = "[(''name'', dict_get d ''name''), (''manufacturer'', dict_get d ''manufacturer''),
               (''model'', dict_get d ''model''), (''body_type'', dict_get d ''bodyType''),
               (''description'', dict_get d ''description''), (''sku'', dict_get d ''sku'')]"
  have sp: "?sp = fst (json_ld_fields parsed [])"
    using assms(1) by (simp add: structured_part_def)
  have sp_bi: "map_of ?sp ''basic_info'' = Some (JObj ?bi0)"
    unfolding sp by (rule json_ld_fields_object [OF assms(2)])
  obtain details r bi where r:
    "extract_detailed_bike_info (json_loads w) (html_parser w page) = Inr details"
    "final_record w bike page = Inr r"
    "map_of r ''basic_info'' = Some (JObj (AList.update ''name'' (JStr (title bike)) bi))"
    "map_of ?sp ''basic_info'' = None \<and> bi = [] \<or> map_of ?sp ''basic_info'' = Some (JObj bi)"
    "\<forall>k. k \<noteq> ''basic_info'' \<and> k \<noteq> ''price'' \<longrightarrow> map_of r k = map_of details k"
    by (rule final_record_result [of w page bike])
  have bi: "bi = ?bi0" using r(4) sp_bi by simp
  from extract_result [of "json_loads w" "html_parser w page"] r(1)
  have keep: "\<forall>k. k \<noteq> ''fuel'' \<and> k \<noteq> ''scraped_specs'' \<longrightarrow> map_of details k = map_of ?sp k"
    by simp
  have eng: "map_of r ''engine'' = map_of ?sp ''engine''"
    using r(5) keep by simp
  let ?bi = "AList.update ''name'' (JStr (title bike)) ?bi0"
  have leaves:
       "map_of ?bi ''manufacturer'' = Some (dict_get d ''manufacturer'')"
       "map_of ?bi ''model'' = Some (dict_get d ''model'')"
       "map_of ?bi ''body_type'' = Some (dict_get d ''bodyType'')"
       "map_of ?bi ''description'' = Some (dict_get d ''description'')"
       "map_of ?bi ''sku'' = Some (dict_get d ''sku'')"
    by simp_all
  have engine: "\<forall>en. map_of d ''vehicleEngine'' = Some (JObj en) \<longrightarrow>
           map_of r ''engine'' =
             Some (JObj [(''displacement'', dict_get en ''engineDisplacement''),
                         (''power'', dict_get en ''enginePower''),
                         (''torque'', dict_get en ''torque''),
                         (''fuel_type'', dict_get en ''fuelType'')])"
    unfolding eng sp using json_ld_fields_engine [OF assms(2)] by blast
  show ?thesis
    by (intro exI [of _ r] exI [of _ ?bi] conjI)
       (rule r(2) r(3) [unfolded bi] leaves engine)+
qed

theorem absent_leaf_fields_are_null_witness:
  "load_json_ld (json_loads sample_world) (html_parser sample_world cb350_html) =
     Some (Inr (JObj [(''name'', JStr ''CB350''),
                      (''offers'', JObj [(''price'', JInt 205000)]),
                      (''vehicleEngine'', JObj [(''enginePower'', JStr ''20.78 bhp'')])]))
   \<and> unwrap_graph (JObj [(''name'', JStr ''CB350''),
                      (''offers'', JObj [(''price'', JInt 205000)]),
                      (''vehicleEngine'', JObj [(''enginePower'', JStr ''20.78 bhp'')])]) =
       Inr (JObj [(''name'', JStr ''CB350''),
                      (''offers'', JObj [(''price'', JInt 205000)]),
                      (''vehicleEngine'', JObj [(''enginePower'', JStr ''20.78 bhp'')])])
   \<and> (\<exists>r bi. final_record sample_world cb350 cb350_html = Inr r
     \<and> map_of r ''basic_info'' = Some (JObj bi)
     \<and> map_of bi ''manufacturer'' = Some JNull
     \<and> map_of bi ''model'' = Some JNull
     \<and> map_of bi ''body_type'' = Some JNull
     \<and> map_of bi ''description'' = Some JNull
     \<and> map_of bi ''sku'' = Some JNull
     \<and> map_of r ''engine'' =
             Some (JObj [(''displacement'', JNull), (''power'', JStr ''20.78 bhp''),
                         (''torque'', JNull), (''fuel_type'', JNull)]))"
proof -
  let ?d = "[(''name'', JStr ''CB350''),
             (''offers'', JObj [(''price'', JInt 205000)]),
             (''vehicleEngine'', JObj [(''enginePower'', JStr ''20.78 bhp'')])]"
  have a: "load_json_ld (json_loads sample_world) (html_parser sample_world cb350_html) =
     Some (Inr (JObj ?d))"
    by code_simp
  have b: "unwrap_graph (JObj ?d) = Inr (JObj ?d)"
    by code_simp
  show ?thesis
    using a b absent_leaf_fields_are_null [OF a b, of cb350]
    by (simp add: dict_get_def)
qed

text \<open>
  Claim C10 as stated fails on a block that is the empty object: it parses, it lacks every
  leaf field, and the final record carries each of them with the value null.
\<close>

theorem absent_leaf_fields_kept_as_null:
  "load_json_ld (json_loads sample_world) (html_parser sample_world empty_object_html) =
     Some (Inr (JObj []))
   \<and> final_record sample_world cb350 empty_object_html =
     Inr [(''basic_info'', JObj [(''name'', JStr ''Honda CB350''), (''manufacturer'', JNull),
            (''model'', JNull), (''body_type'', JNull), (''description'', JNull),
            (''sku'', JNull)]),
          (''price'', JObj [(''value'', JStr ''2,05,000''), (''currency'', JStr ''INR'')])]"
  by code_simp

subsection \<open>The write-once cache\<close>

text \<open>A record file that exists is never written again.\<close>

lemma download_page_keeps_records:
  "json_files (snd (download_page w url p st)) = json_files st"
  by (simp add: download_page_def split: option.splits)

lemma bike_loop_keeps_records:
  assumes "json_files st p = Some r"
  shows "json_files (store_of (bike_loop w bs st)) p = Some r"
  using assms
proof (induction bs arbitrary: st)
  case Nil
  then show ?case by simp
next
  case (Cons b bs)
  let ?jp = "json_path_of (title b)"
  let ?hp = "html_path_of (title b)"
  show ?case
  proof (cases "json_files st ?jp = None")
    case False
    then show ?thesis using Cons by (simp add: Let_def)
  next
    case True
    then have ne: "p \<noteq> ?jp" using Cons.prems by auto
    obtain ok st1 where d:
      "(if html_files st ?hp = None then download_page w (link b) ?hp st else (True, st)) = (ok, st1)"
      by (cases "if html_files st ?hp = None then download_page w (link b) ?hp st else (True, st)")
    have st1: "json_files st1 p = Some r"
      using d Cons.prems download_page_keeps_records [of w "link b" ?hp st]
      by (auto split: if_splits)
    have upd: "json_files (st1\<lparr>json_files := (json_files st1)(?jp \<mapsto> x)\<rparr>) p = Some r" for x
      using st1 ne by simp
    have upd2: "json_files (st1\<lparr>json_files := (json_files st1)(?jp \<mapsto> x),
                   success_count := success_count st1 + 1\<rparr>) p = Some r" for x
      using st1 ne by simp
    show ?thesis
      using True d st1 upd Cons.IH [OF st1] Cons.IH [OF upd2] Cons.prems
      by (simp add: Let_def split: option.splits sum.splits)
  qed
qed

text \<open>A first pass from empty directories downloads the page and saves one record.\<close>

lemma first_run_example:
  "completed (bike_loop sample_world [cb350] empty_store)
   \<and> success_count (store_of (bike_loop sample_world [cb350] empty_store)) = 1
   \<and> html_files (store_of (bike_loop sample_world [cb350] empty_store))
        (html_path_of ''Honda CB350'') = Some cb350_html
   \<and> json_files (store_of (bike_loop sample_world [cb350] empty_store))
        (json_path_of ''Honda CB350'') \<noteq> None"
  by code_simp

text \<open>
  Line 237 turns the slashes of a title into underscores, line 244 does not, and the join
  with the directory drops a \<open>.\<close> component: the titles \<open>CB350\<close> and \<open>./CB350\<close> have one
  page file and two record files.
\<close>

lemma paths_example:
  "html_path_of ''CB350'' = ([], [''.temp'', ''bikes_html'', ''CB350.html''])
   \<and> html_path_of ''./CB350'' = ([], [''.temp'', ''bikes_html'', ''CB350.html''])
   \<and> json_path_of ''CB350'' = ([], [''data'', ''new_bike_details'', ''CB350.json''])
   \<and> json_path_of ''./CB350'' = ([], [''data'', ''new_bike_details'', ''._CB350.json''])"
  by code_simp

text \<open>
  Claim C9 on these two list entries, the first with an address that does not answer. The
  first run ends: it skips the first entry, and for the second it saves the page and one
  record. The second run, over the files the first run left and with the same downloads,
  finds the page file of the second entry under the path of the first and writes a record
  for the first entry.
\<close>

theorem second_run_writes_record:
  "completed (bike_loop sample_world dotted_bikes empty_store)
   \<and> success_count (store_of (bike_loop sample_world dotted_bikes empty_store)) = 1
   \<and> json_files (store_of (bike_loop sample_world dotted_bikes empty_store))
        (json_path_of ''CB350'') = None
   \<and> completed (rerun sample_world dotted_bikes empty_store)
   \<and> success_count (store_of (rerun sample_world dotted_bikes empty_store)) = 1
   \<and> json_files (store_of (rerun sample_world dotted_bikes empty_store))
        (json_path_of ''CB350'') \<noteq> None"
  by code_simp

text \<open>
  The same happens after a download whose write raised: the empty page file stays, the
  first run saves nothing, and the second run extracts a record from the empty page.
\<close>

lemma failed_write_leaves_page_file:
  "completed (bike_loop full_disk_world [cb350] empty_store)
   \<and> success_count (store_of (bike_loop full_disk_world [cb350] empty_store)) = 0
   \<and> html_files (store_of (bike_loop full_disk_world [cb350] empty_store))
        (html_path_of ''Honda CB350'') = Some []
   \<and> completed (rerun full_disk_world [cb350] empty_store)
   \<and> success_count (store_of (rerun full_disk_world [cb350] empty_store)) = 1"
  by code_simp

end
